theory Spec2Isabelle
  imports Main "HOL-Library.Word"
begin

section \<open>Header collections\<close>

text \<open>
  A Go \<open>http.Header\<close> is a \<open>map[string][]string\<close>. It is modelled as an association
  list from the stored key to the list of values of that key; the order of the list stands
  for the (unspecified) iteration order of the Go map. A lookup reads the first entry of a
  key and a deletion removes every entry of the key, so the results below hold for every
  list, in particular for the lists with distinct keys that stand for Go maps.
\<close>

type_synonym header = "(string \<times> string list) list"

subsection \<open>Library functions used by the sanitizer\<close>

text \<open>
  \<open>textproto.CanonicalMIMEHeaderKey\<close>: a key with a byte that is not a header-field
  (token) byte is returned unchanged; otherwise the first letter and every letter after a
  hyphen are upper-cased and all other letters lower-cased.
\<close>

definition isLower :: "char \<Rightarrow> bool" where
  "isLower c = (97 \<le> (of_char c :: nat) \<and> (of_char c :: nat) \<le> 122)"

definition isUpper :: "char \<Rightarrow> bool" where
  "isUpper c = (65 \<le> (of_char c :: nat) \<and> (of_char c :: nat) \<le> 90)"

definition isDigit :: "char \<Rightarrow> bool" where
  "isDigit c = (48 \<le> (of_char c :: nat) \<and> (of_char c :: nat) \<le> 57)"

definition toUpper :: "char \<Rightarrow> char" where
  "toUpper c = char_of ((of_char c :: nat) - 32)"

definition toLower :: "char \<Rightarrow> char" where
  "toLower c = char_of ((of_char c :: nat) + 32)"

definition validHeaderFieldByte :: "char \<Rightarrow> bool" where
  "validHeaderFieldByte c =
     (isLower c \<or> isUpper c \<or> isDigit c \<or> c \<in> set ''!#$%&*+-.^_|~''
      \<or> c = CHR 0x27 \<or> c = CHR 0x60)"

fun canonicalBytes :: "bool \<Rightarrow> string \<Rightarrow> string" where
  "canonicalBytes upper [] = []"
| "canonicalBytes upper (c # cs) =
     (let c' = (if upper \<and> isLower c then toUpper c
                else if \<not> upper \<and> isUpper c then toLower c
                else c)
      in c' # canonicalBytes (c' = CHR ''-'') cs)"

definition CanonicalMIMEHeaderKey :: "string \<Rightarrow> string" where
  "CanonicalMIMEHeaderKey s =
     (if list_all validHeaderFieldByte s then canonicalBytes True s else s)"

text \<open>
  \<open>Header.Get\<close> returns the first value stored under the canonical form of the key,
  and the empty string when the key is absent or has no value. \<open>Header.Del\<close> deletes the
  entry of the canonical form of the key. \<open>Header.Add\<close> appends a value to the entry of
  the canonical form of the key.
\<close>

definition firstValue :: "string list option \<Rightarrow> string" where
  "firstValue e = (case e of None \<Rightarrow> [] | Some [] \<Rightarrow> [] | Some (v # _) \<Rightarrow> v)"

definition Get :: "header \<Rightarrow> string \<Rightarrow> string" where
  "Get h key = firstValue (map_of h (CanonicalMIMEHeaderKey key))"

definition Del :: "header \<Rightarrow> string \<Rightarrow> header" where
  "Del h key = filter (\<lambda>kv. fst kv \<noteq> CanonicalMIMEHeaderKey key) h"

fun addValue :: "header \<Rightarrow> string \<Rightarrow> string \<Rightarrow> header" where
  "addValue [] k v = [(k, [v])]"
| "addValue ((k', vs) # h) k v =
     (if k' = k then (k', vs @ [v]) # h else (k', vs) # addValue h k v)"

definition Add :: "header \<Rightarrow> string \<Rightarrow> string \<Rightarrow> header" where
  "Add h key v = addValue h (CanonicalMIMEHeaderKey key) v"

text \<open>
  \<open>strings.Split(s, ",")\<close> cuts at every separator and always returns at least one
  piece.
\<close>

fun Split :: "string \<Rightarrow> char \<Rightarrow> string list" where
  "Split [] sep = [[]]"
| "Split (c # cs) sep =
     (if c = sep then [] # Split cs sep
      else (case Split cs sep of
              [] \<Rightarrow> [[c]]
            | p # ps \<Rightarrow> (c # p) # ps))"

text \<open>
  \<open>strings.TrimSpace\<close> removes all leading and all trailing white space as Unicode
  defines it (\<open>unicode.IsSpace\<close>), decoding the string as UTF-8. A Go string is a
  byte sequence, so each white space character is listed with its UTF-8 encoding: the six
  one-byte characters tab, line feed, vertical tab, form feed, carriage return and space,
  then U+0085, U+00A0, U+1680, U+2000 to U+200A, U+2028, U+2029, U+202F, U+205F and
  U+3000. UTF-8 decoding accepts the shortest encoding of a character only, and a byte
  that starts no valid encoding decodes to U+FFFD, which is no white space; so the string
  starts (ends) with a white space character exactly when it starts (ends) with one of
  the listed byte sequences.
\<close>

definition spaceRunes :: "string list" where
  "spaceRunes =
     [[CHR 0x09], [CHR 0x0A], [CHR 0x0B], [CHR 0x0C], [CHR 0x0D], [CHR 0x20],
      [CHR 0xC2, CHR 0x85], [CHR 0xC2, CHR 0xA0],
      [CHR 0xE1, CHR 0x9A, CHR 0x80],
      [CHR 0xE2, CHR 0x80, CHR 0x80], [CHR 0xE2, CHR 0x80, CHR 0x81],
      [CHR 0xE2, CHR 0x80, CHR 0x82], [CHR 0xE2, CHR 0x80, CHR 0x83],
      [CHR 0xE2, CHR 0x80, CHR 0x84], [CHR 0xE2, CHR 0x80, CHR 0x85],
      [CHR 0xE2, CHR 0x80, CHR 0x86], [CHR 0xE2, CHR 0x80, CHR 0x87],
      [CHR 0xE2, CHR 0x80, CHR 0x88], [CHR 0xE2, CHR 0x80, CHR 0x89],
      [CHR 0xE2, CHR 0x80, CHR 0x8A],
      [CHR 0xE2, CHR 0x80, CHR 0xA8], [CHR 0xE2, CHR 0x80, CHR 0xA9],
      [CHR 0xE2, CHR 0x80, CHR 0xAF], [CHR 0xE2, CHR 0x81, CHR 0x9F],
      [CHR 0xE3, CHR 0x80, CHR 0x80]]"

text \<open>
  \<open>stripRunes rs s\<close> removes from the front of \<open>s\<close>, again and again, a byte
  sequence of \<open>rs\<close> that \<open>s\<close> starts with. Trimming at the end is trimming the
  reversed string by the reversed sequences.
\<close>

function stripRunes :: "string list \<Rightarrow> string \<Rightarrow> string" where
  "stripRunes rs s =
     (case find (\<lambda>r. r \<noteq> [] \<and> take (length r) s = r) rs of
        None \<Rightarrow> s
      | Some r \<Rightarrow> stripRunes rs (drop (length r) s))"
  by pat_completeness auto
termination
proof (relation "measure (\<lambda>(rs, s). length s)")
  show "wf (measure (\<lambda>(rs, s). length s))"
    by simp
next
  fix rs :: "string list" and s r :: string
  assume "find (\<lambda>r. r \<noteq> [] \<and> take (length r) s = r) rs = Some r"
  then have "r \<noteq> []" and "take (length r) s = r"
    by (auto simp: find_Some_iff)
  then have "s \<noteq> []"
    by auto
  with \<open>r \<noteq> []\<close> show "((rs, drop (length r) s), (rs, s)) \<in> measure (\<lambda>(rs, s). length s)"
    by simp
qed

declare stripRunes.simps [simp del]

definition TrimSpace :: "string \<Rightarrow> string" where
  "TrimSpace s = rev (stripRunes (map rev spaceRunes) (rev (stripRunes spaceRunes s)))"

subsection \<open>The sanitizer\<close>

definition hopHeaders :: "string list" where
  "hopHeaders =
     [''Connection'', ''Proxy-Connection'', ''Keep-Alive'', ''Proxy-Authenticate'',
      ''Proxy-Authorization'', ''Te'', ''Trailer'', ''Transfer-Encoding'', ''Upgrade'']"

definition delListed :: "string \<Rightarrow> header \<Rightarrow> header" where
  \<comment> \<open>the body of the loop of \<open>removeConnectionHeaders\<close>\<close>
  "delListed f h = (let f' = TrimSpace f in if f' \<noteq> [] then Del h f' else h)"

definition removeConnectionHeaders :: "header \<Rightarrow> header" where
  "removeConnectionHeaders h =
     (let c = Get h ''Connection''
      in if c \<noteq> [] then fold delListed (Split c CHR '','') h else h)"

definition delHop :: "string \<Rightarrow> header \<Rightarrow> header" where
  \<comment> \<open>the body of the loop of \<open>removeHopHopHeaders\<close>\<close>
  "delHop item h = (if Get h item \<noteq> [] then Del h item else h)"

definition removeHopHopHeaders :: "header \<Rightarrow> header" where
  "removeHopHopHeaders h = fold delHop hopHeaders h"

definition removeIssueHeader :: "header \<Rightarrow> header" where
  "removeIssueHeader h = removeHopHopHeaders (removeConnectionHeaders h)"

definition copyHeader :: "header \<Rightarrow> header \<Rightarrow> header" where
  "copyHeader dst src =
     fold (\<lambda>(k, vv) d. fold (\<lambda>v d'. Add d' k v) vv d) src dst"

text \<open>
  The canonical names that the first value of the \<open>Connection\<close> header lists: the
  keys that the loop of \<open>removeConnectionHeaders\<close> deletes.
\<close>

definition connectionListed :: "header \<Rightarrow> string list" where
  "connectionListed h =
     map CanonicalMIMEHeaderKey
       (filter (\<lambda>f. f \<noteq> []) (map TrimSpace (Split (Get h ''Connection'') CHR '','')))"

section \<open>Requests, responses and the request context\<close>

text \<open>
  Only the parts of \<open>http.Request\<close>, \<open>url.URL\<close> and \<open>http.Response\<close> that the
  proxy reads or writes are kept. The response body is the byte sequence that
  \<open>io.Copy\<close> reads from it, up to its end or its first read error.
\<close>

record url =
  Host :: string

record request =
  Method :: string
  URL :: url
  Header :: header

record response =
  StatusCode :: nat
  RespHeader :: header
  Body :: string

text \<open>
  The response sink \<open>http.ResponseWriter\<close>: its header collection, and what its
  \<open>Hijack\<close> capability does when asked (the sink may not implement
  \<open>http.Hijacker\<close> at all, \<open>Hijack\<close> may fail, or it yields the client stream).
\<close>

datatype hijack = NotHijacker | HijackFails string | HijackOK

record ResponseWriter =
  rwHeader :: header
  rwHijack :: hijack

text \<open>
  The request context. The type \<open>Context\<close> is declared outside \<open>proxy.go\<close>; the
  fields are the three that \<open>proxy.go\<close> names: \<open>Req\<close> (the request that
  \<open>ctx.Req\<close> points to), \<open>Data\<close> and the abort flag.
\<close>

record ('k, 'v) Context =
  Req :: request
  Data :: "'k \<rightharpoonup> 'v"
  abort :: bool

text \<open>The errors that the proxy hands to the \<open>ErrorLog\<close> hook.\<close>

datatype proxy_error =
    HTTPRequestError url string
  | HijackUnsupported
  | HijackError string
  | ParentProxyError string string
  | DialError string string
  | NotifyClientError string

text \<open>
  The capability set. The interface \<open>Delegate\<close> is declared outside \<open>proxy.go\<close>;
  each hook has the arguments of its call in \<open>proxy.go\<close> and returns the objects it may
  have mutated through the pointers it was given. \<open>BeforeResponse\<close> receives the
  result of the round trip; the response it returns is the state of the response object
  after the hook, and is read only when the round trip succeeded. \<open>ErrorLog\<close> and
  \<open>Finish\<close> appear as events only. Every hook is taken to return: a hook that
  panics is outside the model.

  \<open>Connect\<close> and \<open>Auth\<close> run before the branch of \<open>ServeHTTP\<close> on
  \<open>req.Method\<close>, which reads the request object that \<open>ServeHTTP\<close> was given,
  whereas the forwarders read \<open>ctx.Req\<close>. A hook may change that object in place or
  make \<open>ctx.Req\<close> point to another request; so these two hooks also receive and
  return the request object that \<open>ServeHTTP\<close> was given.
\<close>

record ('k, 'v) Delegate =
  Connect ::
    "('k, 'v) Context \<Rightarrow> ResponseWriter \<Rightarrow> request
     \<Rightarrow> ('k, 'v) Context \<times> ResponseWriter \<times> request"
  Auth ::
    "('k, 'v) Context \<Rightarrow> ResponseWriter \<Rightarrow> request
     \<Rightarrow> ('k, 'v) Context \<times> ResponseWriter \<times> request"
  BeforeRequest :: "('k, 'v) Context \<Rightarrow> ('k, 'v) Context"
  BeforeResponse :: "('k, 'v) Context \<Rightarrow> string + response \<Rightarrow> ('k, 'v) Context \<times> response"
  BeforeTunnelForward ::
    "('k, 'v) Context \<Rightarrow> ResponseWriter \<Rightarrow> ('k, 'v) Context \<times> ResponseWriter"
  ParentProxy :: "request \<Rightarrow> string + url option"

text \<open>
  The proxy instance: the delegate, the live-connection counter (an \<open>int32\<close>) and the
  round-trip capability of the transport. The network that the tunnel path talks to:
  whether \<open>net.DialTimeout\<close> to an address fails, and whether the write of the
  success line to the client stream fails.
\<close>

record ('k, 'v) Proxy =
  delegate :: "('k, 'v) Delegate"
  clientConnNum :: "32 word"
  transport :: "request \<Rightarrow> string + response"

record network =
  DialTimeout :: "string \<Rightarrow> string option"
  clientWrite :: "string option"

section \<open>Events\<close>

text \<open>
  Every call that the proxy makes on a hook, on the response sink, on the transport or on
  the network is recorded, in order, in a trace. A pipeline stage is recorded together
  with the value of the abort flag when the hook returned, which is the value that the
  check after the hook reads. \<open>EvWriteHeader\<close> is a call of \<open>WriteHeader\<close> on
  the sink and \<open>EvWriteBody\<close> the call of \<open>io.Copy\<close> that hands the bytes of
  the body to the sink. \<open>EvPanic\<close> is the panic of \<open>WriteHeader\<close> on a status
  code that is not between 100 and 999, which \<open>net/http\<close> rejects in this way.
\<close>

datatype stage = StConnect | StAuth | StBeforeRequest | StBeforeResponse | StBeforeTunnelForward

datatype side = Client | Target

datatype event =
    EvAtomicAdd int
  | EvStage stage bool
  | EvFinish
  | EvErrorLog proxy_error
  | EvRoundTrip request "string + response"
  | EvWriteHeader nat
  | EvWriteBody string
  | EvPanic
  | EvBodyClose
  | EvHijack
  | EvParentProxy "string + url option"
  | EvDial string bool
  | EvSetDeadline side
  | EvConnWrite side string
  | EvForwardTCP
  | EvConnClose side

record ('k, 'v) exec =
  st_ctx :: "('k, 'v) Context"
  st_rw :: ResponseWriter
  st_trace :: "event list"

definition emit :: "event list \<Rightarrow> ('k, 'v) exec \<Rightarrow> ('k, 'v) exec" where
  "emit es s = s\<lparr>st_trace := st_trace s @ es\<rparr>"

text \<open>
  The hook \<open>BeforeTunnelForward\<close>, which receives the context and the sink, followed
  by the read of the abort flag.
\<close>

definition runStage ::
  "stage \<Rightarrow> (('k, 'v) Context \<Rightarrow> ResponseWriter \<Rightarrow> ('k, 'v) Context \<times> ResponseWriter)
   \<Rightarrow> ('k, 'v) exec \<Rightarrow> ('k, 'v) exec" where
  "runStage st hook s =
     (case hook (st_ctx s) (st_rw s) of
        (c, w) \<Rightarrow> \<lparr>st_ctx = c, st_rw = w, st_trace = st_trace s @ [EvStage st (abort c)]\<rparr>)"

section \<open>The forwarders and the dispatcher\<close>

definition StatusBadGateway :: nat where
  "StatusBadGateway = 502"

definition CRLF :: string where
  "CRLF = [CHR 0x0D, CHR 0x0A]"

definition tunnelEstablishedResponseLine :: string where
  "tunnelEstablishedResponseLine = ''HTTP/1.1 200 Connection established'' @ CRLF @ CRLF"

definition makeTunnelRequestLine :: "string \<Rightarrow> string" where
  "makeTunnelRequestLine addr = ''CONNECT '' @ addr @ '' HTTP/1.1'' @ CRLF @ CRLF"

definition hijacker :: "ResponseWriter \<Rightarrow> proxy_error + unit" where
  "hijacker w =
     (case rwHijack w of
        NotHijacker \<Rightarrow> Inl HijackUnsupported
      | HijackFails e \<Rightarrow> Inl (HijackError e)
      | HijackOK \<Rightarrow> Inr ())"

definition forwardHTTP :: "('k, 'v) Proxy \<Rightarrow> ('k, 'v) exec \<Rightarrow> ('k, 'v) exec" where
  "forwardHTTP p s =
     (let c1 = BeforeRequest (delegate p) (st_ctx s);
          s1 = emit [EvStage StBeforeRequest (abort c1)] (s\<lparr>st_ctx := c1\<rparr>)
      in if abort c1 then s1
         else
           let req = (Req c1)\<lparr>Header := removeIssueHeader (Header (Req c1))\<rparr>;
               rt = transport p req
           in (case BeforeResponse (delegate p) (c1\<lparr>Req := req\<rparr>) rt of
                 (c2, resp) \<Rightarrow>
                   let s2 = emit [EvRoundTrip req rt, EvStage StBeforeResponse (abort c2)]
                              (s1\<lparr>st_ctx := c2\<rparr>)
                   in if abort c2 then s2
                      else (case rt of
                              Inl err \<Rightarrow>
                                emit [EvErrorLog (HTTPRequestError (URL (Req c2)) err),
                                      EvWriteHeader StatusBadGateway] s2
                            | Inr _ \<Rightarrow>
                                emit (if 100 \<le> StatusCode resp \<and> StatusCode resp \<le> 999
                                      then [EvWriteHeader (StatusCode resp),
                                            EvWriteBody (Body resp), EvBodyClose]
                                      else [EvWriteHeader (StatusCode resp), EvPanic,
                                            EvBodyClose])
                                  (s2\<lparr>st_rw := (st_rw s2)\<lparr>rwHeader :=
                                      copyHeader (rwHeader (st_rw s2))
                                        (removeIssueHeader (RespHeader resp))\<rparr>\<rparr>))))"

text \<open>
  The part of \<open>forwardTunnel\<close> after the dial has succeeded: the deadlines, the
  handshake and the relay, followed by the deferred close of the target stream.
\<close>

definition tunnelHandshake ::
  "network \<Rightarrow> string \<Rightarrow> url option \<Rightarrow> ('k, 'v) exec \<Rightarrow> ('k, 'v) exec" where
  "tunnelHandshake net host parentProxyURL s =
     emit [EvConnClose Target]
       (let s1 = emit [EvSetDeadline Client, EvSetDeadline Target] s
        in (case parentProxyURL of
              None \<Rightarrow>
                (case clientWrite net of
                   Some err \<Rightarrow>
                     emit [EvConnWrite Client tunnelEstablishedResponseLine,
                           EvErrorLog (NotifyClientError err)] s1
                 | None \<Rightarrow>
                     emit [EvConnWrite Client tunnelEstablishedResponseLine, EvForwardTCP] s1)
            | Some _ \<Rightarrow>
                emit [EvConnWrite Target (makeTunnelRequestLine host), EvForwardTCP] s1))"

definition forwardTunnel ::
  "('k, 'v) Proxy \<Rightarrow> network \<Rightarrow> ('k, 'v) exec \<Rightarrow> ('k, 'v) exec" where
  "forwardTunnel p net s =
     (let s1 = runStage StBeforeTunnelForward (BeforeTunnelForward (delegate p)) s
      in if abort (st_ctx s1) then s1
         else (case hijacker (st_rw s1) of
                 Inl err \<Rightarrow> emit [EvErrorLog err, EvWriteHeader StatusBadGateway] s1
               | Inr _ \<Rightarrow>
                   emit [EvConnClose Client]
                     (let host = Host (URL (Req (st_ctx s1)));
                          pp = ParentProxy (delegate p) (Req (st_ctx s1));
                          s2 = emit [EvHijack, EvParentProxy pp] s1
                      in (case pp of
                            Inl err \<Rightarrow>
                              emit [EvErrorLog (ParentProxyError host err),
                                    EvWriteHeader StatusBadGateway] s2
                          | Inr parentProxyURL \<Rightarrow>
                              let targetAddr =
                                    (case parentProxyURL of None \<Rightarrow> host | Some u \<Rightarrow> Host u)
                              in (case DialTimeout net targetAddr of
                                    Some err \<Rightarrow>
                                      emit [EvDial targetAddr False,
                                            EvErrorLog (DialError host err),
                                            EvWriteHeader StatusBadGateway] s2
                                  | None \<Rightarrow>
                                      tunnelHandshake net host parentProxyURL
                                        (emit [EvDial targetAddr True] s2))))))"




text \<open>The events of one call of a forwarder, and of one request.\<close>

definition httpTrace ::
  "('k, 'v) Proxy \<Rightarrow> ('k, 'v) Context \<Rightarrow> ResponseWriter \<Rightarrow> event list" where
  "httpTrace p c w = st_trace (forwardHTTP p \<lparr>st_ctx = c, st_rw = w, st_trace = []\<rparr>)"

definition tunnelTrace ::
  "('k, 'v) Proxy \<Rightarrow> network \<Rightarrow> ('k, 'v) Context \<Rightarrow> ResponseWriter \<Rightarrow> event list" where
  "tunnelTrace p net c w =
     st_trace (forwardTunnel p net \<lparr>st_ctx = c, st_rw = w, st_trace = []\<rparr>)"


section \<open>Reading traces\<close>





fun isSinkWrite :: "event \<Rightarrow> bool" where
  "isSinkWrite (EvWriteHeader _) = True"
| "isSinkWrite (EvWriteBody _) = True"
| "isSinkWrite _ = False"





text \<open>
  What reaches the client of the events of a trace. The response sink belongs to the
  HTTP server library; once \<open>Hijack\<close> has handed the client stream over, the library
  does nothing more with the connection (the contract of \<open>http.Hijacker\<close>): on the
  sink of a hijacked connection \<open>WriteHeader\<close> logs the call and returns, and
  \<open>Write\<close> returns \<open>http.ErrHijacked\<close>; neither sends anything. Writes on the
  hijacked client stream itself reach the client.
\<close>

fun reachesClient :: "bool \<Rightarrow> event list \<Rightarrow> event list" where
  "reachesClient hijacked [] = []"
| "reachesClient hijacked (EvHijack # es) = reachesClient True es"
| "reachesClient hijacked (EvWriteHeader code # es) =
     (if hijacked then reachesClient hijacked es
      else EvWriteHeader code # reachesClient hijacked es)"
| "reachesClient hijacked (EvWriteBody b # es) =
     (if hijacked then reachesClient hijacked es
      else EvWriteBody b # reachesClient hijacked es)"
| "reachesClient hijacked (EvConnWrite Client b # es) =
     EvConnWrite Client b # reachesClient hijacked es"
| "reachesClient hijacked (_ # es) = reachesClient hijacked es"

section \<open>Sample delegates, requests and proxies\<close>

text \<open>
  The response object as a hook finds it: the response of the round trip, and an empty
  one where the round trip failed and there is no response object.
\<close>

definition responseOf :: "string + response \<Rightarrow> response" where
  "responseOf r =
     (case r of Inl _ \<Rightarrow> \<lparr>StatusCode = 0, RespHeader = [], Body = []\<rparr> | Inr resp \<Rightarrow> resp)"

definition passDelegate :: "(nat, nat) Delegate" where
  "passDelegate =
     \<lparr>Connect = (\<lambda>c w r. (c, w, r)),
      Auth = (\<lambda>c w r. (c, w, r)),
      BeforeRequest = (\<lambda>c. c),
      BeforeResponse = (\<lambda>c r. (c, responseOf r)),
      BeforeTunnelForward = (\<lambda>c w. (c, w)),
      ParentProxy = (\<lambda>_. Inr None)\<rparr>"


definition getRequest :: request where
  "getRequest =
     \<lparr>Method = ''GET'', URL = \<lparr>Host = ''example.com''\<rparr>,
      Header = [(''Accept'', [''*/*'']), (''Proxy-Connection'', [''keep-alive''])]\<rparr>"

definition sanitizedGetRequest :: request where
  "sanitizedGetRequest =
     \<lparr>Method = ''GET'', URL = \<lparr>Host = ''example.com''\<rparr>, Header = [(''Accept'', [''*/*''])]\<rparr>"

definition connectRequest :: request where
  "connectRequest = \<lparr>Method = ''CONNECT'', URL = \<lparr>Host = ''example.com:443''\<rparr>, Header = []\<rparr>"

definition okResponse :: response where
  "okResponse =
     \<lparr>StatusCode = 200,
      RespHeader = [(''Connection'', [''X-Custom'']), (''X-Custom'', [''1'']),
                    (''Content-Type'', [''text/plain''])],
      Body = ''hello''\<rparr>"

definition plainSink :: ResponseWriter where
  "plainSink = \<lparr>rwHeader = [], rwHijack = HijackOK\<rparr>"

definition openNetwork :: network where
  "openNetwork = \<lparr>DialTimeout = (\<lambda>_. None), clientWrite = None\<rparr>"

definition closedNetwork :: network where
  "closedNetwork = \<lparr>DialTimeout = (\<lambda>_. Some ''timeout''), clientWrite = None\<rparr>"

definition parentURL :: url where
  "parentURL = \<lparr>Host = ''parent.example:8080''\<rparr>"

definition okProxy :: "(nat, nat) Proxy" where
  "okProxy = \<lparr>delegate = passDelegate, clientConnNum = 0, transport = (\<lambda>_. Inr okResponse)\<rparr>"

definition failProxy :: "(nat, nat) Proxy" where
  "failProxy =
     \<lparr>delegate = passDelegate, clientConnNum = 0, transport = (\<lambda>_. Inl ''refused'')\<rparr>"





definition parentProxy :: "(nat, nat) Proxy" where
  "parentProxy =
     okProxy\<lparr>delegate := passDelegate\<lparr>ParentProxy := (\<lambda>_. Inr (Some parentURL))\<rparr>\<rparr>"

definition badParentProxy :: "(nat, nat) Proxy" where
  "badParentProxy =
     okProxy\<lparr>delegate := passDelegate\<lparr>ParentProxy := (\<lambda>_. Inl ''no such proxy'')\<rparr>\<rparr>"

definition freshCtx :: "request \<Rightarrow> (nat, nat) Context" where
  "freshCtx req = \<lparr>Req = req, Data = Map.empty, abort = False\<rparr>"

section \<open>Properties of the header sanitizer\<close>

lemma stripRunes_Nil: "stripRunes rs [] = []"
proof -
  have "find (\<lambda>r. r \<noteq> [] \<and> take (length r) [] = r) rs = None"
    by (auto simp: find_None_iff)
  then show ?thesis
    by (subst stripRunes.simps) simp
qed

lemma TrimSpace_Nil: "TrimSpace [] = []"
  by (simp add: TrimSpace_def stripRunes_Nil)

lemma TrimSpace_unicode:
  "TrimSpace ([CHR 0x20, CHR 0xE3, CHR 0x80, CHR 0x80] @ ''Upgrade'' @ [CHR 0xC2, CHR 0xA0, CHR 0x09])
     = ''Upgrade''
   \<and> TrimSpace (''a b'' @ [CHR 0xA0]) = ''a b'' @ [CHR 0xA0]
   \<and> removeIssueHeader
        [(''Connection'', [''Upgrade'' @ [CHR 0xC2, CHR 0xA0]]), (''Upgrade'', [[]])] = []"
  by code_simp

lemma map_of_Del:
  "map_of (Del h k) k' = (if k' = CanonicalMIMEHeaderKey k then None else map_of h k')"
  by (induction h) (auto simp: Del_def)

lemma map_of_delListed:
  "map_of (delListed f h) k' =
     (if TrimSpace f \<noteq> [] \<and> k' = CanonicalMIMEHeaderKey (TrimSpace f) then None
      else map_of h k')"
  by (simp add: delListed_def Let_def map_of_Del)

lemma map_of_fold_delListed:
  "map_of (fold delListed fs h) k' =
     (if k' \<in> set (map CanonicalMIMEHeaderKey (filter (\<lambda>f. f \<noteq> []) (map TrimSpace fs)))
      then None else map_of h k')"
  by (induction fs arbitrary: h) (auto simp: map_of_delListed)

lemma connectionListed_empty: "Get h ''Connection'' = [] \<Longrightarrow> connectionListed h = []"
  by (simp add: connectionListed_def TrimSpace_Nil)

lemma map_of_removeConnectionHeaders:
  "map_of (removeConnectionHeaders h) k' =
     (if k' \<in> set (connectionListed h) then None else map_of h k')"
proof (cases "Get h ''Connection'' = []")
  case True
  then show ?thesis
    by (simp add: removeConnectionHeaders_def connectionListed_empty)
next
  case False
  then show ?thesis
    by (simp add: removeConnectionHeaders_def Let_def map_of_fold_delListed
          connectionListed_def)
qed

lemma map_of_delHop:
  "map_of (delHop item h) k' =
     (if k' = CanonicalMIMEHeaderKey item \<and> firstValue (map_of h k') \<noteq> [] then None
      else map_of h k')"
  by (auto simp: delHop_def map_of_Del Get_def)

lemma map_of_fold_delHop:
  "map_of (fold delHop items h) k' =
     (if k' \<in> set (map CanonicalMIMEHeaderKey items) \<and> firstValue (map_of h k') \<noteq> []
      then None else map_of h k')"
  by (induction items arbitrary: h) (auto simp: map_of_delHop firstValue_def)

lemma canonical_hopHeaders: "map CanonicalMIMEHeaderKey hopHeaders = hopHeaders"
  by code_simp



lemma map_of_removeHopHopHeaders:
  "map_of (removeHopHopHeaders h) k =
     (if k \<in> set hopHeaders \<and> firstValue (map_of h k) \<noteq> [] then None else map_of h k)"
  by (simp only: removeHopHopHeaders_def map_of_fold_delHop canonical_hopHeaders)

lemma map_of_removeIssueHeader:
  "map_of (removeIssueHeader h) k =
     (if k \<in> set (connectionListed h) then None
      else if k \<in> set hopHeaders \<and> firstValue (map_of h k) \<noteq> [] then None
      else map_of h k)"
  by (simp add: removeIssueHeader_def map_of_removeHopHopHeaders
        map_of_removeConnectionHeaders firstValue_def)











text \<open>
  Claim C10, amended. A header whose value is the empty string is left unchanged by the
  sanitizer, also when its name is in the hop-by-hop set, provided that its name is not
  listed in the value of the \<open>Connection\<close> header.
\<close>

theorem removeIssueHeader_keeps_empty:
  assumes "firstValue (map_of h k) = []" and "k \<notin> set (connectionListed h)"
  shows "map_of (removeIssueHeader h) k = map_of h k"
  using assms by (simp add: map_of_removeIssueHeader)

theorem removeIssueHeader_keeps_empty_witness:
  "''Upgrade'' \<in> set hopHeaders
   \<and> firstValue (map_of [(''Upgrade'', ['''']), (''Accept'', [''*/*''])] ''Upgrade'') = []
   \<and> ''Upgrade'' \<notin> set (connectionListed [(''Upgrade'', ['''']), (''Accept'', [''*/*''])])
   \<and> map_of (removeIssueHeader [(''Upgrade'', ['''']), (''Accept'', [''*/*''])]) ''Upgrade''
       = Some ['''']"
proof -
  let ?h = "[(''Upgrade'', ['''']), (''Accept'', [''*/*''])]"
  have a: "firstValue (map_of ?h ''Upgrade'') = []"
    by code_simp
  have b: "''Upgrade'' \<notin> set (connectionListed ?h)"
    by code_simp
  have c: "''Upgrade'' \<in> set hopHeaders"
    by code_simp
  have d: "map_of ?h ''Upgrade'' = Some ['''']"
    by simp
  from removeIssueHeader_keeps_empty [OF a b] a b c d show ?thesis
    by simp
qed

text \<open>
  Claim C10 as stated does not hold for every header collection: the deletion of the
  names listed in the \<open>Connection\<close> header is guarded by the value of the
  \<open>Connection\<close> header and by the listed name being non-empty, not by the value of
  the listed header. A hop-by-hop header with an empty value that the \<open>Connection\<close>
  header lists is removed.
\<close>

theorem removeIssueHeader_listed_empty_counterexample:
  "''Upgrade'' \<in> set hopHeaders
   \<and> Get [(''Connection'', [''Upgrade'']), (''Upgrade'', [''''])] ''Upgrade'' = []
   \<and> map_of [(''Connection'', [''Upgrade'']), (''Upgrade'', [''''])] ''Upgrade'' = Some ['''']
   \<and> removeIssueHeader [(''Connection'', [''Upgrade'']), (''Upgrade'', [''''])] = []"
  by code_simp

section \<open>Properties of the forwarders and the dispatcher\<close>

lemma emit_trace [simp]: "st_trace (emit es s) = st_trace s @ es"
  by (simp add: emit_def)

lemma emit_ctx [simp]: "st_ctx (emit es s) = st_ctx s"
  by (simp add: emit_def)

lemma emit_rw [simp]: "st_rw (emit es s) = st_rw s"
  by (simp add: emit_def)

lemma tunnelHandshake_trace:
  "st_trace (tunnelHandshake net host pu s) =
     st_trace s @ [EvSetDeadline Client, EvSetDeadline Target]
       @ (case pu of
            None \<Rightarrow> EvConnWrite Client tunnelEstablishedResponseLine
                     # (case clientWrite net of
                          None \<Rightarrow> [EvForwardTCP]
                        | Some err \<Rightarrow> [EvErrorLog (NotifyClientError err)])
          | Some u \<Rightarrow> [EvConnWrite Target (makeTunnelRequestLine host), EvForwardTCP])
       @ [EvConnClose Target]"
  by (simp add: tunnelHandshake_def Let_def split: option.splits)

subsection \<open>The shape of a trace\<close>







subsection \<open>Reading the checks\<close>












text \<open>
  Claim C3. When no parent proxy is resolved and the dial to the target succeeds, the
  tunnel forwarder writes exactly the bytes of the success line to the client stream, and
  the relay is started after this write only (and only when the write succeeded).
\<close>

theorem forwardTunnel_direct:
  assumes "EvParentProxy (Inr None) \<in> set (tunnelTrace p net c w)"
    and "EvDial a True \<in> set (tunnelTrace p net c w)"
  shows "tunnelTrace p net c w =
           [EvStage StBeforeTunnelForward False, EvHijack, EvParentProxy (Inr None),
            EvDial a True, EvSetDeadline Client, EvSetDeadline Target,
            EvConnWrite Client tunnelEstablishedResponseLine]
           @ (case clientWrite net of
                None \<Rightarrow> [EvForwardTCP]
              | Some err \<Rightarrow> [EvErrorLog (NotifyClientError err)])
           @ [EvConnClose Target, EvConnClose Client]
         \<and> tunnelEstablishedResponseLine
             = ''HTTP/1.1 200 Connection established'' @ [CHR 0x0D, CHR 0x0A, CHR 0x0D, CHR 0x0A]"
  using assms
  by (auto simp: tunnelTrace_def forwardTunnel_def runStage_def Let_def
        tunnelHandshake_trace tunnelEstablishedResponseLine_def CRLF_def
      split: prod.splits sum.splits option.splits if_splits)

theorem forwardTunnel_direct_witness:
  "EvParentProxy (Inr None)
     \<in> set (tunnelTrace okProxy openNetwork (freshCtx connectRequest) plainSink)
   \<and> EvDial ''example.com:443'' True
       \<in> set (tunnelTrace okProxy openNetwork (freshCtx connectRequest) plainSink)
   \<and> tunnelTrace okProxy openNetwork (freshCtx connectRequest) plainSink =
        [EvStage StBeforeTunnelForward False, EvHijack, EvParentProxy (Inr None),
         EvDial ''example.com:443'' True, EvSetDeadline Client, EvSetDeadline Target,
         EvConnWrite Client tunnelEstablishedResponseLine, EvForwardTCP,
         EvConnClose Target, EvConnClose Client]"
proof -
  let ?tr = "tunnelTrace okProxy openNetwork (freshCtx connectRequest) plainSink"
  have a: "EvParentProxy (Inr None) \<in> set ?tr"
    by code_simp
  have b: "EvDial ''example.com:443'' True \<in> set ?tr"
    by code_simp
  have c: "clientWrite openNetwork = None"
    by (simp add: openNetwork_def)
  from forwardTunnel_direct [OF a b] a b c show ?thesis
    by simp
qed

text \<open>
  Claim C4, amended. When a parent proxy is resolved and the dial to the parent proxy
  succeeds, the tunnel forwarder writes exactly the bytes
  \<open>CONNECT <host:port> HTTP/1.1\<close>, followed by two line ends, to the parent-side
  stream, where \<open>host:port\<close> is the target \<open>ctx.Req.URL.Host\<close> of the request and
  not the address of the parent; it writes nothing to the client stream and starts the
  relay.
\<close>

theorem forwardTunnel_parent:
  assumes "EvParentProxy (Inr (Some u)) \<in> set (tunnelTrace p net c w)"
    and "EvDial a True \<in> set (tunnelTrace p net c w)"
  shows "tunnelTrace p net c w =
           [EvStage StBeforeTunnelForward False, EvHijack, EvParentProxy (Inr (Some u)),
            EvDial (Host u) True, EvSetDeadline Client, EvSetDeadline Target,
            EvConnWrite Target
              (makeTunnelRequestLine
                 (Host (URL (Req (fst (BeforeTunnelForward (delegate p) c w)))))),
            EvForwardTCP, EvConnClose Target, EvConnClose Client]
         \<and> makeTunnelRequestLine addr
             = ''CONNECT '' @ addr @ '' HTTP/1.1'' @ [CHR 0x0D, CHR 0x0A, CHR 0x0D, CHR 0x0A]"
  using assms
  by (auto simp: tunnelTrace_def forwardTunnel_def runStage_def Let_def
        tunnelHandshake_trace makeTunnelRequestLine_def CRLF_def
      split: prod.splits sum.splits option.splits if_splits)

theorem forwardTunnel_parent_witness:
  "EvParentProxy (Inr (Some parentURL))
     \<in> set (tunnelTrace parentProxy openNetwork (freshCtx connectRequest) plainSink)
   \<and> EvDial ''parent.example:8080'' True
       \<in> set (tunnelTrace parentProxy openNetwork (freshCtx connectRequest) plainSink)
   \<and> tunnelTrace parentProxy openNetwork (freshCtx connectRequest) plainSink =
        [EvStage StBeforeTunnelForward False, EvHijack, EvParentProxy (Inr (Some parentURL)),
         EvDial ''parent.example:8080'' True, EvSetDeadline Client, EvSetDeadline Target,
         EvConnWrite Target
           (''CONNECT example.com:443 HTTP/1.1'' @ [CHR 0x0D, CHR 0x0A, CHR 0x0D, CHR 0x0A]),
         EvForwardTCP, EvConnClose Target, EvConnClose Client]"
proof -
  let ?tr = "tunnelTrace parentProxy openNetwork (freshCtx connectRequest) plainSink"
  have a: "EvParentProxy (Inr (Some parentURL)) \<in> set ?tr"
    by code_simp
  have b: "EvDial ''parent.example:8080'' True \<in> set ?tr"
    by code_simp
  have c: "Host parentURL = ''parent.example:8080''"
    by (simp add: parentURL_def)
  have d: "makeTunnelRequestLine
             (Host (URL (Req (fst (BeforeTunnelForward (delegate parentProxy)
                                     (freshCtx connectRequest) plainSink)))))
           = ''CONNECT example.com:443 HTTP/1.1'' @ [CHR 0x0D, CHR 0x0A, CHR 0x0D, CHR 0x0A]"
    by code_simp
  from forwardTunnel_parent [OF a b] a b c d show ?thesis
    by simp
qed

text \<open>
  Claim C4 as stated does not hold for every request for which a parent proxy is
  resolved: when the dial to the parent proxy fails, nothing is written to a parent-side
  stream; the forwarder logs the error and answers with the gateway-error status.
\<close>

theorem forwardTunnel_parent_unreachable_counterexample:
  "tunnelTrace parentProxy closedNetwork (freshCtx connectRequest) plainSink =
     [EvStage StBeforeTunnelForward False, EvHijack, EvParentProxy (Inr (Some parentURL)),
      EvDial ''parent.example:8080'' False,
      EvErrorLog (DialError ''example.com:443'' ''timeout''), EvWriteHeader 502,
      EvConnClose Client]"
  by code_simp

text \<open>
  Claim C5 fails on the code. After the client stream has been hijacked, a failure to
  resolve the parent proxy and a failure of the dial are logged, \<open>WriteHeader\<close> is
  called once with the gateway-error status on the response sink, and the hijacked stream
  is closed. But the sink is the one whose connection has just been hijacked, so the
  status does not reach the client: nothing is written to the client before its stream is
  closed. Where the hijack itself fails, the same call is made on a sink that still owns
  the connection, and the status reaches the client.
\<close>

theorem forwardTunnel_error_after_hijack:
  "tunnelTrace okProxy closedNetwork (freshCtx connectRequest) plainSink =
     [EvStage StBeforeTunnelForward False, EvHijack, EvParentProxy (Inr None),
      EvDial ''example.com:443'' False,
      EvErrorLog (DialError ''example.com:443'' ''timeout''), EvWriteHeader 502,
      EvConnClose Client]
   \<and> reachesClient False
        (tunnelTrace okProxy closedNetwork (freshCtx connectRequest) plainSink) = []
   \<and> tunnelTrace badParentProxy openNetwork (freshCtx connectRequest) plainSink =
       [EvStage StBeforeTunnelForward False, EvHijack, EvParentProxy (Inl ''no such proxy''),
        EvErrorLog (ParentProxyError ''example.com:443'' ''no such proxy''),
        EvWriteHeader 502, EvConnClose Client]
   \<and> reachesClient False
        (tunnelTrace badParentProxy openNetwork (freshCtx connectRequest) plainSink) = []
   \<and> reachesClient False
        (tunnelTrace okProxy openNetwork (freshCtx connectRequest)
           (plainSink\<lparr>rwHijack := NotHijacker\<rparr>)) = [EvWriteHeader 502]"
  by code_simp

text \<open>
  Claim C6. When the round trip returns an error and no hook sets the abort flag, the
  HTTP forwarder reports the error to the \<open>ErrorLog\<close> hook and writes the status 502
  to the response sink, and this status is all that it writes to the sink: no body byte.
\<close>

theorem forwardHTTP_roundtrip_error:
  assumes "EvRoundTrip r (Inl err) \<in> set (httpTrace p c w)"
    and "\<forall>st. EvStage st True \<notin> set (httpTrace p c w)"
  shows "(\<exists>u. httpTrace p c w =
            [EvStage StBeforeRequest False, EvRoundTrip r (Inl err),
             EvStage StBeforeResponse False, EvErrorLog (HTTPRequestError u err),
             EvWriteHeader StatusBadGateway])
         \<and> filter isSinkWrite (httpTrace p c w) = [EvWriteHeader 502]"
  using assms
  by (auto simp: httpTrace_def forwardHTTP_def Let_def StatusBadGateway_def
      split: prod.splits sum.splits if_splits)

theorem forwardHTTP_roundtrip_error_witness:
  "EvRoundTrip sanitizedGetRequest (Inl ''refused'')
     \<in> set (httpTrace failProxy (freshCtx getRequest) plainSink)
   \<and> (\<forall>st. EvStage st True \<notin> set (httpTrace failProxy (freshCtx getRequest) plainSink))
   \<and> httpTrace failProxy (freshCtx getRequest) plainSink =
       [EvStage StBeforeRequest False, EvRoundTrip sanitizedGetRequest (Inl ''refused''),
        EvStage StBeforeResponse False,
        EvErrorLog (HTTPRequestError \<lparr>Host = ''example.com''\<rparr> ''refused''),
        EvWriteHeader 502]
   \<and> filter isSinkWrite (httpTrace failProxy (freshCtx getRequest) plainSink)
       = [EvWriteHeader 502]"
proof -
  let ?tr = "httpTrace failProxy (freshCtx getRequest) plainSink"
  have eq: "?tr =
       [EvStage StBeforeRequest False, EvRoundTrip sanitizedGetRequest (Inl ''refused''),
        EvStage StBeforeResponse False,
        EvErrorLog (HTTPRequestError \<lparr>Host = ''example.com''\<rparr> ''refused''),
        EvWriteHeader 502]"
    by code_simp
  have a: "EvRoundTrip sanitizedGetRequest (Inl ''refused'') \<in> set ?tr"
    by (simp add: eq)
  have b: "\<forall>st. EvStage st True \<notin> set ?tr"
    by (simp add: eq)
  from forwardHTTP_roundtrip_error [OF a b] a b eq show ?thesis
    by blast
qed






end
